theory Spec2Isabelle
  imports Complex_Main "HOL-Library.Sublist"
begin

section \<open>Python strings\<close>

text \<open>
  A Python \<open>str\<close> is modelled as a \<open>string\<close> whose characters are the code points
  below 256. The string methods the parser calls are written out for these code points.
\<close>

definition isspace :: "char \<Rightarrow> bool" where
  \<comment> \<open>the code points below 256 that \<open>str.split()\<close> and \<open>str.strip()\<close> treat as whitespace\<close>
  "isspace c = (c \<in> set [CHR 0x09, CHR 0x0A, CHR 0x0B, CHR 0x0C, CHR 0x0D,
       CHR 0x1C, CHR 0x1D, CHR 0x1E, CHR 0x1F, CHR 0x20, CHR 0x85, CHR 0xA0])"

definition lower_chr :: "char \<Rightarrow> char" where
  "lower_chr c = (let n = (of_char c :: nat) in
     if (65 \<le> n \<and> n \<le> 90) \<or> (192 \<le> n \<and> n \<le> 222 \<and> n \<noteq> 215)
     then char_of (n + 32) else c)"

definition lower :: "string \<Rightarrow> string" where
  "lower s = map lower_chr s"

definition upper_chr :: "char \<Rightarrow> char" where
  \<comment> \<open>\<open>str.upper()\<close> on ASCII text, which is all that \<open>__str__\<close> renders\<close>
  "upper_chr c = (let n = (of_char c :: nat) in
     if 97 \<le> n \<and> n \<le> 122 then char_of (n - 32) else c)"

definition upper :: "string \<Rightarrow> string" where
  "upper s = map upper_chr s"

definition strip :: "string \<Rightarrow> string" where
  "strip s = rev (dropWhile isspace (rev (dropWhile isspace s)))"

definition startswith :: "string \<Rightarrow> string \<Rightarrow> bool" where
  "startswith s p = prefix p s"

text \<open>\<open>s.split()\<close>: the maximal runs of non-whitespace characters, in order.\<close>

fun split_aux :: "string \<Rightarrow> string \<Rightarrow> string list" where
  "split_aux cur [] = (if cur = [] then [] else [rev cur])"
| "split_aux cur (c # cs) =
     (if isspace c then (if cur = [] then split_aux [] cs else rev cur # split_aux [] cs)
      else split_aux (c # cur) cs)"

definition split_ws :: "string \<Rightarrow> string list" where
  "split_ws s = split_aux [] s"

text \<open>\<open>p in s\<close> for two strings: \<open>p\<close> occurs in \<open>s\<close> as a contiguous piece.\<close>

fun str_in :: "string \<Rightarrow> string \<Rightarrow> bool" where
  "str_in p [] = (p = [])"
| "str_in p (c # s) = (prefix p (c # s) \<or> str_in p s)"

text \<open>
  Iterating over \<open>io.StringIO(s)\<close>: the lines of \<open>s\<close>, each with its terminating
  newline (the last one may lack it).
\<close>

fun readlines_aux :: "string \<Rightarrow> string \<Rightarrow> string list" where
  "readlines_aux cur [] = (if cur = [] then [] else [rev cur])"
| "readlines_aux cur (c # cs) =
     (if c = CHR 0x0A then rev (c # cur) # readlines_aux [] cs
      else readlines_aux (c # cur) cs)"

definition readlines :: "string \<Rightarrow> string list" where
  "readlines s = readlines_aux [] s"

subsection \<open>Integers and text\<close>

definition isdigit :: "char \<Rightarrow> bool" where
  "isdigit c = (48 \<le> (of_char c :: nat) \<and> (of_char c :: nat) \<le> 57)"

definition digit_val :: "char \<Rightarrow> nat" where
  "digit_val c = of_char c - 48"

text \<open>
  \<open>int(s)\<close> on a token: an optional sign, then decimal digits, where single underscores
  may stand between digits. The flag says whether the character before was a digit.
  \<open>None\<close> stands for the \<open>ValueError\<close>.
\<close>

fun int_digits :: "bool \<Rightarrow> nat \<Rightarrow> string \<Rightarrow> nat option" where
  "int_digits d acc [] = (if d then Some acc else None)"
| "int_digits d acc (c # cs) =
     (if isdigit c then int_digits True (acc * 10 + digit_val c) cs
      else if c = CHR ''_'' \<and> d then int_digits False acc cs
      else None)"

definition int_of_str :: "string \<Rightarrow> int option" where
  "int_of_str s =
     (case s of
        c # r \<Rightarrow>
          (if c = CHR ''+'' then map_option int (int_digits False 0 r)
           else if c = CHR ''-'' then map_option (\<lambda>n. - int n) (int_digits False 0 r)
           else map_option int (int_digits False 0 s))
      | [] \<Rightarrow> None)"

fun str_of_nat :: "nat \<Rightarrow> string" where
  "str_of_nat n =
     (if n < 10 then [char_of (48 + n)]
      else str_of_nat (n div 10) @ [char_of (48 + n mod 10)])"

declare str_of_nat.simps [simp del]

definition str_of_int :: "int \<Rightarrow> string" where
  "str_of_int i = (if i < 0 then CHR ''-'' # str_of_nat (nat (- i)) else str_of_nat (nat i))"

section \<open>Exceptions\<close>

text \<open>
  Every exception the parser can raise is a value. \<open>TypeError\<close> carries its message, since
  the source distinguishes its own failures by message only.
\<close>

datatype error =
    TypeError string
  | ValueError
  | AttributeError
  | StopIteration
  | IndexError
  | KeyError
  | OverflowError
  | AssertionError

section \<open>Options\<close>

record Options =
  unit :: string
  parameter :: string
  format :: string
  resistance :: int

definition UNIT_TO_FACTOR :: "(string \<times> int) list" where
  "UNIT_TO_FACTOR = [(''ghz'', 10 ^ 9), (''mhz'', 10 ^ 6), (''khz'', 10 ^ 3), (''hz'', 10 ^ 0)]"

definition VALID_UNITS :: "string list" where
  "VALID_UNITS = map fst UNIT_TO_FACTOR"

definition VALID_PARAMETERS :: string where
  "VALID_PARAMETERS = ''syzgh''"

definition VALID_FORMATS :: "string list" where
  "VALID_FORMATS = [''ma'', ''db'', ''ri'']"

definition Options_init :: "string \<Rightarrow> string \<Rightarrow> string \<Rightarrow> int \<Rightarrow> error + Options" where
  "Options_init u p t_format r =
     (if lower u \<notin> set VALID_UNITS then Inl AssertionError
      else if \<not> str_in (lower p) VALID_PARAMETERS then Inl AssertionError
      else if lower t_format \<notin> set VALID_FORMATS then Inl AssertionError
      else if \<not> r > 0 then Inl AssertionError
      else Inr \<lparr>unit = lower u, parameter = lower p, format = lower t_format, resistance = r\<rparr>)"

definition Options_default :: Options where
  \<comment> \<open>\<open>Options()\<close>: the defaults \<open>"GHZ"\<close>, \<open>"S"\<close>, \<open>"ma"\<close>, \<open>50\<close>, lower-cased\<close>
  "Options_default = \<lparr>unit = ''ghz'', parameter = ''s'', format = ''ma'', resistance = 50\<rparr>"

definition factor :: "Options \<Rightarrow> error + int" where
  "factor self = (case map_of UNIT_TO_FACTOR (unit self) of
       None \<Rightarrow> Inl KeyError | Some k \<Rightarrow> Inr k)"

definition to_string :: "Options \<Rightarrow> string" where
  \<comment> \<open>\<open>Options.__str__\<close>\<close>
  "to_string self =
     upper (''# '' @ unit self @ '' '' @ parameter self @ '' '' @ format self
            @ '' r '' @ str_of_int (resistance self))"

text \<open>
  The loop of \<open>Options.parse\<close> over the token iterator. The four flags are the locals
  \<open>pfact\<close>, \<open>pparam\<close>, \<open>pformat\<close> and \<open>presist\<close>. \<open>factor\<close> is a property with no setter,
  so the assignment \<open>self.factor = ...\<close> raises \<open>AttributeError\<close>. The second component of
  the result is the exception raised, if any; the first is the object as the call leaves it.
\<close>

fun parse_loop :: "string \<Rightarrow> bool \<Rightarrow> bool \<Rightarrow> bool \<Rightarrow> bool \<Rightarrow> Options \<Rightarrow> string list
    \<Rightarrow> Options \<times> error option" where
  "parse_loop line pfact pparam pformat presist self [] = (self, None)"
| "parse_loop line pfact pparam pformat presist self (p # params) =
     (if p \<in> set VALID_UNITS \<and> \<not> pfact then (self, Some AttributeError)
      else if str_in p VALID_PARAMETERS \<and> \<not> pparam then
        parse_loop line pfact True pformat presist (self\<lparr>parameter := p\<rparr>) params
      else if p \<in> set VALID_FORMATS \<and> \<not> pformat then
        parse_loop line pfact pparam True presist (self\<lparr>format := p\<rparr>) params
      else if p = ''r'' \<and> \<not> presist then
        (case params of
           [] \<Rightarrow> (self, Some StopIteration)
         | n # params' \<Rightarrow>
             (case int_of_str n of
                None \<Rightarrow> (self, Some ValueError)
              | Some r \<Rightarrow>
                  parse_loop line pfact pparam pformat presist (self\<lparr>resistance := r\<rparr>) params'))
      else (self, Some (TypeError (''Illegial option line: '' @ line))))"

text \<open>
  \<open>Options.parse\<close>. The argument is \<open>None\<close> when the caller hands over Python's \<open>None\<close>,
  which has no \<open>startswith\<close>.
\<close>

definition parse :: "string option \<Rightarrow> Options \<Rightarrow> Options \<times> error option" where
  "parse line self =
     (case line of
        None \<Rightarrow> (self, Some AttributeError)
      | Some l \<Rightarrow>
          if \<not> startswith l ''#'' then (self, Some (TypeError (''Not an option line: '' @ l)))
          else parse_loop l False False False False self (split_ws (lower (drop 1 l))))"

section \<open>Floating-point numbers\<close>

text \<open>
  The parser only parses floats, scales them by an integer, compares them, divides them by
  an integer and hands them to \<open>math.exp\<close>. These primitives of Python's \<open>float\<close> are
  parameters of the model, so that every theorem holds for whatever they compute
  (rounding, infinities and NaN included). \<open>float_of_str\<close> is \<open>float(s)\<close>, with \<open>None\<close> for
  its \<open>ValueError\<close>; \<open>math_exp\<close> is \<open>math.exp\<close>, with \<open>None\<close> for its \<open>OverflowError\<close>.
\<close>

record 'f float_ops =
  float_of_str :: "string \<Rightarrow> 'f option"
  fmul_int :: "'f \<Rightarrow> int \<Rightarrow> 'f"
  fdiv_int :: "'f \<Rightarrow> int \<Rightarrow> 'f"
  fle :: "'f \<Rightarrow> 'f \<Rightarrow> bool"
  math_exp :: "'f \<Rightarrow> 'f option"
  fzero :: 'f

section \<open>Touchstone\<close>

text \<open>
  \<open>Datapoint\<close> comes from \<open>NanoVNASaver.RFTools\<close>; the parser only calls its three-field
  constructor \<open>Datapoint(freq, re, im)\<close>.
\<close>

datatype 'f Datapoint = Datapoint (freq: 'f) (re: 'f) (im: 'f)

record 'f Touchstone =
  filename :: string
  sdata :: "'f Datapoint list list"
  comments :: "string list"
  opts :: Options

definition Touchstone_init :: "string \<Rightarrow> 'f Touchstone" where
  "Touchstone_init name =
     \<lparr>filename = name, sdata = [[], [], [], []], comments = [], opts = Options_default\<rparr>"

text \<open>
  \<open>_parse_comments\<close> reads from the shared line iterator: the result holds the returned line
  (\<open>None\<close> when the iterator runs out, where the Python function falls off its end), the
  lines left in the iterator, and the object with the comments appended.
\<close>

fun parse_comments :: "string list \<Rightarrow> 'f Touchstone
    \<Rightarrow> string option \<times> string list \<times> 'f Touchstone" where
  "parse_comments [] self = (None, [], self)"
| "parse_comments (l # fp) self =
     (let line = strip l in
      if startswith line ''!''
      then parse_comments fp (self\<lparr>comments := comments self @ [line]\<rparr>)
      else (Some line, fp, self))"

definition polar_msg :: string where
  \<comment> \<open>the \<open>TypeError\<close> of \<open>cmath.polar\<close> called with two arguments; the wording of the message
      varies between interpreter versions, and no statement depends on it\<close>
  "polar_msg = ''polar() takes exactly one argument (2 given)''"

text \<open>
  The loop of \<open>_append_line_data\<close>. \<open>i\<close> is the position of the iterator \<open>data_list\<close> over
  \<open>self.sdata\<close>, \<open>fmt\<close> is \<open>self.opts.format\<close>, \<open>fq\<close> the frequency, the list holds what the
  iterator \<open>vals\<close> has left. The three \<open>if\<close> statements of the body run in sequence; at most
  one of them fires, since they compare one string with three different ones. \<open>cmath.polar\<close>
  takes one argument, so each of the two calls with two arguments raises \<open>TypeError\<close> once
  its arguments are evaluated.
\<close>

fun append_loop :: "'f float_ops \<Rightarrow> string \<Rightarrow> 'f \<Rightarrow> nat \<Rightarrow> string list
    \<Rightarrow> 'f Datapoint list list \<Rightarrow> 'f Datapoint list list \<times> error option" where
  "append_loop F fmt fq i [] sd = (sd, None)"
| "append_loop F fmt fq i (v # vals) sd =
     (if fmt = ''ri'' then
        (if \<not> i < length sd then (sd, Some StopIteration)
         else case float_of_str F v of
           None \<Rightarrow> (sd, Some ValueError)
         | Some a \<Rightarrow>
            (case vals of
               [] \<Rightarrow> (sd, Some StopIteration)
             | w # vals' \<Rightarrow>
                (case float_of_str F w of
                   None \<Rightarrow> (sd, Some ValueError)
                 | Some b \<Rightarrow>
                     append_loop F fmt fq (Suc i) vals'
                       (sd[i := sd ! i @ [Datapoint fq a b]]))))
      else if fmt = ''ma'' then
        (case float_of_str F v of
           None \<Rightarrow> (sd, Some ValueError)
         | Some a \<Rightarrow>
            (case vals of
               [] \<Rightarrow> (sd, Some StopIteration)
             | w # vals' \<Rightarrow>
                (case float_of_str F w of
                   None \<Rightarrow> (sd, Some ValueError)
                 | Some b \<Rightarrow> (sd, Some (TypeError polar_msg)))))
      else if fmt = ''db'' then
        (case float_of_str F v of
           None \<Rightarrow> (sd, Some ValueError)
         | Some a \<Rightarrow>
            (case math_exp F (fdiv_int F a 20) of
               None \<Rightarrow> (sd, Some OverflowError)
             | Some m \<Rightarrow>
                (case vals of
                   [] \<Rightarrow> (sd, Some StopIteration)
                 | w # vals' \<Rightarrow>
                    (case float_of_str F w of
                       None \<Rightarrow> (sd, Some ValueError)
                     | Some b \<Rightarrow> (sd, Some (TypeError polar_msg))))))
      else append_loop F fmt fq i vals sd)"

definition append_line_data :: "'f float_ops \<Rightarrow> 'f \<Rightarrow> string list \<Rightarrow> 'f Touchstone
    \<Rightarrow> 'f Touchstone \<times> error option" where
  "append_line_data F fq data self =
     (case append_loop F (format (opts self)) fq 0 data (sdata self) of
        (sd, e) \<Rightarrow> (self\<lparr>sdata := sd\<rparr>, e))"

text \<open>
  One pass through the body of the \<open>for line in file\<close> loop of \<open>loads\<close>. The loop state is
  \<open>(prev_freq, prev_len, self)\<close>; the second component of the result is the exception that
  ends the loop, if any.
\<close>

definition loop_body :: "'f float_ops \<Rightarrow> 'f \<times> nat \<times> 'f Touchstone \<Rightarrow> string
    \<Rightarrow> ('f \<times> nat \<times> 'f Touchstone) \<times> error option" where
  "loop_body F st line =
     (case st of (prev_freq, prev_len, self) \<Rightarrow>
      if strip line = [] then (st, None)
      else
        (case split_ws (takeWhile (\<lambda>c. c \<noteq> CHR ''!'') line) of
           [] \<Rightarrow> (st, Some IndexError)
         | tok # data \<Rightarrow>
            (case float_of_str F tok of
               None \<Rightarrow> (st, Some ValueError)
             | Some x \<Rightarrow>
                (case factor (opts self) of
                   Inl e \<Rightarrow> (st, Some e)
                 | Inr k \<Rightarrow>
                    (let fq = fmul_int F x k; data_len = length data in
                     if fle F fq prev_freq
                     then (st, Some (TypeError (''Frequeny not ascending: '' @ line)))
                     else if prev_len = 0 then
                       (if data_len mod 2 \<noteq> 0
                        then ((fq, data_len, self),
                              Some (TypeError (''Data values aren'' @ [CHR 0x27] @ ''t pairs: '' @ line)))
                        else (case append_line_data F fq data self of
                                (self', e) \<Rightarrow> ((fq, data_len, self'), e)))
                     else if data_len \<noteq> prev_len
                     then ((fq, prev_len, self),
                           Some (TypeError (''Inconsistent number of pairs: '' @ line)))
                     else (case append_line_data F fq data self of
                             (self', e) \<Rightarrow> ((fq, prev_len, self'), e)))))))"

fun data_loop :: "'f float_ops \<Rightarrow> 'f \<times> nat \<times> 'f Touchstone \<Rightarrow> string list
    \<Rightarrow> ('f \<times> nat \<times> 'f Touchstone) \<times> error option" where
  "data_loop F st [] = (st, None)"
| "data_loop F st (line # file) =
     (case loop_body F st line of
        (st', Some e) \<Rightarrow> (st', Some e)
      | (st', None) \<Rightarrow> data_loop F st' file)"

text \<open>
  \<open>loads\<close>: the comment block, the options line, then the data lines, starting from
  \<open>prev_freq = 0.0\<close> and \<open>prev_len = 0\<close>. The result is the object as the call leaves it
  and the exception raised, if any.
\<close>

definition loads :: "'f float_ops \<Rightarrow> string \<Rightarrow> 'f Touchstone \<Rightarrow> 'f Touchstone \<times> error option" where
  "loads F s self =
     (case parse_comments (readlines s) self of
        (opts_line, file, self1) \<Rightarrow>
          (case parse opts_line (opts self1) of
             (o', Some e) \<Rightarrow> (self1\<lparr>opts := o'\<rparr>, Some e)
           | (o', None) \<Rightarrow>
               (case data_loop F (fzero F, 0, self1\<lparr>opts := o'\<rparr>) file of
                  ((prev_freq, prev_len, self2), e) \<Rightarrow> (self2, e))))"

section \<open>A sample interpretation of the float primitives\<close>

text \<open>
  To run the model on concrete files, the float primitives are interpreted over the
  extended reals with NaN. Finite values are carried exactly, so this interpretation
  agrees with Python wherever the doubles involved are exact. \<open>sample_float_of_str\<close>
  reads decimal literals with an optional sign, fraction and exponent, and the words
  \<open>inf\<close>, \<open>infinity\<close> and \<open>nan\<close>; underscores between digits are beyond it. Comparisons
  with NaN are false, as in Python.
\<close>

datatype pyfloat = Fin real | PInf | NInf | NaN

fun nat_of_digits :: "nat \<Rightarrow> string \<Rightarrow> nat" where
  "nat_of_digits acc [] = acc"
| "nat_of_digits acc (c # cs) = nat_of_digits (acc * 10 + digit_val c) cs"

definition split_sign :: "string \<Rightarrow> bool \<times> string" where
  "split_sign s =
     (case s of
        c # r \<Rightarrow> if c = CHR ''-'' then (True, r) else if c = CHR ''+'' then (False, r) else (False, s)
      | [] \<Rightarrow> (False, s))"

definition exponent_of :: "string \<Rightarrow> int option" where
  "exponent_of s =
     (case s of
        [] \<Rightarrow> Some 0
      | c # r \<Rightarrow>
          if c = CHR ''e'' \<or> c = CHR ''E'' then
            (case split_sign r of (neg, ds) \<Rightarrow>
               if ds = [] \<or> \<not> list_all isdigit ds then None
               else Some (if neg then - int (nat_of_digits 0 ds) else int (nat_of_digits 0 ds)))
          else None)"

definition scale10 :: "real \<Rightarrow> int \<Rightarrow> real" where
  "scale10 m e = (if e < 0 then m / 10 ^ nat (- e) else m * 10 ^ nat e)"

definition sample_float_of_str :: "string \<Rightarrow> pyfloat option" where
  "sample_float_of_str s =
     (case split_sign s of (neg, body) \<Rightarrow>
        if lower body = ''nan'' then Some NaN
        else if lower body = ''inf'' \<or> lower body = ''infinity''
        then Some (if neg then NInf else PInf)
        else
          (let ip = takeWhile isdigit body; r1 = dropWhile isdigit body;
               fp = (case r1 of c # r \<Rightarrow> if c = CHR ''.'' then takeWhile isdigit r else [] | [] \<Rightarrow> []);
               r2 = (case r1 of c # r \<Rightarrow> if c = CHR ''.'' then dropWhile isdigit r else r1 | [] \<Rightarrow> [])
           in if ip = [] \<and> fp = [] then None
              else (case exponent_of r2 of
                      None \<Rightarrow> None
                    | Some e \<Rightarrow>
                        (let m = scale10 (real (nat_of_digits 0 (ip @ fp))) (e - int (length fp))
                         in Some (Fin (if neg then - m else m))))))"

fun sample_fmul_int :: "pyfloat \<Rightarrow> int \<Rightarrow> pyfloat" where
  "sample_fmul_int (Fin a) k = Fin (a * real_of_int k)"
| "sample_fmul_int NaN k = NaN"
| "sample_fmul_int PInf k = (if k > 0 then PInf else if k < 0 then NInf else NaN)"
| "sample_fmul_int NInf k = (if k > 0 then NInf else if k < 0 then PInf else NaN)"

fun sample_fdiv_int :: "pyfloat \<Rightarrow> int \<Rightarrow> pyfloat" where
  \<comment> \<open>the parser divides by the constant 20 only\<close>
  "sample_fdiv_int (Fin a) k = Fin (a / real_of_int k)"
| "sample_fdiv_int NaN k = NaN"
| "sample_fdiv_int PInf k = (if k < 0 then NInf else PInf)"
| "sample_fdiv_int NInf k = (if k < 0 then PInf else NInf)"

fun sample_fle :: "pyfloat \<Rightarrow> pyfloat \<Rightarrow> bool" where
  "sample_fle NaN y = False"
| "sample_fle x NaN = False"
| "sample_fle NInf y = True"
| "sample_fle x PInf = True"
| "sample_fle PInf y = False"
| "sample_fle x NInf = False"
| "sample_fle (Fin a) (Fin b) = (a \<le> b)"

fun sample_flt :: "pyfloat \<Rightarrow> pyfloat \<Rightarrow> bool" where
  \<comment> \<open>Python's \<open>x < y\<close>, which the parser does not use; it serves to state what \<open>\<le>\<close> lets through\<close>
  "sample_flt NaN y = False"
| "sample_flt x NaN = False"
| "sample_flt x NInf = False"
| "sample_flt PInf y = False"
| "sample_flt NInf y = True"
| "sample_flt x PInf = True"
| "sample_flt (Fin a) (Fin b) = (a < b)"

definition real_exp :: "real \<Rightarrow> real" where
  [code del]: "real_exp x = exp x"

fun sample_math_exp :: "pyfloat \<Rightarrow> pyfloat option" where
  \<comment> \<open>\<open>math.exp\<close> raises \<open>OverflowError\<close> above 709.782712893384, the logarithm of the largest double\<close>
  "sample_math_exp (Fin x) = (if x > 709782712893384 / 10 ^ 12 then None else Some (Fin (real_exp x)))"
| "sample_math_exp NaN = Some NaN"
| "sample_math_exp PInf = Some PInf"
| "sample_math_exp NInf = Some (Fin 0)"

definition sample_ops :: "pyfloat float_ops" where
  "sample_ops = \<lparr>float_of_str = sample_float_of_str, fmul_int = sample_fmul_int,
     fdiv_int = sample_fdiv_int, fle = sample_fle, math_exp = sample_math_exp,
     fzero = Fin 0\<rparr>"

section \<open>Notions used in the statements\<close>

text \<open>
  What the loop of \<open>loads\<close> reads off a data line: whether it is skipped as blank, its
  tokens before any inline comment, its normalized frequency \<open>float(data[0]) * factor\<close>
  (when the line has a frequency token that parses), and the number of its value tokens
  \<open>len(data[1:])\<close>.
\<close>

definition nonblank :: "string \<Rightarrow> bool" where
  "nonblank line = (strip line \<noteq> [])"

definition line_tokens :: "string \<Rightarrow> string list" where
  "line_tokens line = split_ws (takeWhile (\<lambda>c. c \<noteq> CHR ''!'') line)"

definition line_freq :: "'f float_ops \<Rightarrow> Options \<Rightarrow> string \<Rightarrow> 'f option" where
  "line_freq F ops line =
     (case line_tokens line of
        [] \<Rightarrow> None
      | tok # data \<Rightarrow>
          (case float_of_str F tok of
             None \<Rightarrow> None
           | Some x \<Rightarrow> (case factor ops of Inl e \<Rightarrow> None | Inr k \<Rightarrow> Some (fmul_int F x k))))"

definition value_count :: "string \<Rightarrow> nat" where
  "value_count line = length (drop 1 (line_tokens line))"

text \<open>
  An instance with the same options and file name whose series and comments are empty, and
  an instance put behind given series and comments.
\<close>

definition emptied :: "'f Touchstone \<Rightarrow> 'f Touchstone" where
  "emptied self = self\<lparr>sdata := replicate (length (sdata self)) [], comments := []\<rparr>"

definition behind :: "'f Datapoint list list \<Rightarrow> string list \<Rightarrow> 'f Touchstone \<Rightarrow> 'f Touchstone" where
  "behind base cs self = self\<lparr>sdata := map2 (@) base (sdata self), comments := cs @ comments self\<rparr>"

section \<open>Properties of the options line\<close>

lemma unit_not_int: "p \<in> set VALID_UNITS \<Longrightarrow> int_of_str p = None"
proof -
  have "list_all (\<lambda>p. int_of_str p = None) VALID_UNITS"
    by code_simp
  then show "p \<in> set VALID_UNITS \<Longrightarrow> int_of_str p = None"
    by (simp add: list_all_iff)
qed

lemma parse_loop_unit_token:
  "p \<in> set params \<Longrightarrow> p \<in> set VALID_UNITS \<Longrightarrow> \<not> pfact \<Longrightarrow>
   snd (parse_loop line pfact pparam pformat presist self params) \<noteq> None"
proof (induction line pfact pparam pformat presist self params rule: parse_loop.induct)
  case (1 line pfact pparam pformat presist self)
  then show ?case by simp
next
  case (2 line pfact pparam pformat presist self q params)
  show ?case
  proof (cases "q \<in> set VALID_UNITS")
    case True
    with "2.prems" show ?thesis by simp
  next
    case False
    with "2.prems" have mem: "p \<in> set params" by auto
    show ?thesis
    proof (cases "str_in q VALID_PARAMETERS \<and> \<not> pparam")
      case True
      with False "2.IH"(1) mem "2.prems" show ?thesis by auto
    next
      case np: False
      show ?thesis
      proof (cases "q \<in> set VALID_FORMATS \<and> \<not> pformat")
        case True
        with False np "2.IH"(2) mem "2.prems" show ?thesis by auto
      next
        case nf: False
        show ?thesis
        proof (cases "q = ''r'' \<and> \<not> presist")
          case True
          show ?thesis
          proof (cases params)
            case Nil
            with mem show ?thesis by simp
          next
            case (Cons n params')
            show ?thesis
            proof (cases "int_of_str n")
              case None
              with False np nf True Cons show ?thesis by auto
            next
              case (Some r)
              with "2.prems"(2) unit_not_int have "p \<noteq> n" by auto
              with mem Cons have "p \<in> set params'" by simp
              with "2.IH"(3) [OF _ _ _ _ Cons Some] False np nf True "2.prems" Cons Some
              show ?thesis by auto
            qed
          qed
        next
          case False
          with \<open>q \<notin> set VALID_UNITS\<close> np nf show ?thesis by auto
        qed
      qed
    qed
  qed
qed

lemma parse_loop_unit_unchanged:
  "unit (fst (parse_loop line pfact pparam pformat presist self params)) = unit self"
  by (induction line pfact pparam pformat presist self params rule: parse_loop.induct)
     (auto split: list.splits option.splits)

text \<open>
  C1. The specification says: an options line with a frequency-unit keyword makes
  \<open>Options.parse\<close> record that unit, and the factor follows it. On the code the
  opposite holds: whenever any token of the options line is a unit keyword,
  \<open>parse\<close> ends in an exception, and the unit of the object (hence its factor)
  is what it was before the call. The unit keyword is either reached by the loop, where the
  assignment to the read-only property \<open>factor\<close> raises, or it is taken as the
  number after \<open>r\<close>, where \<open>int\<close> raises, or an earlier token has
  already ended the call.
\<close>

theorem parse_unit_token_raises:
  assumes "startswith line ''#''"
    and "p \<in> set (split_ws (lower (drop 1 line)))"
    and "p \<in> set VALID_UNITS"
  shows "snd (parse (Some line) self) \<noteq> None
       \<and> unit (fst (parse (Some line) self)) = unit self"
  using assms parse_loop_unit_token [of p "split_ws (lower (drop 1 line))" False line False False False self]
  by (simp add: parse_def parse_loop_unit_unchanged)

theorem parse_unit_token_raises_witness:
  "snd (parse (Some ''# MHz S MA R 50'') Options_default) \<noteq> None
   \<and> unit (fst (parse (Some ''# MHz S MA R 50'') Options_default)) = unit Options_default"
proof (rule parse_unit_token_raises [where p = "''mhz''"])
  show "startswith ''# MHz S MA R 50'' ''#''" by code_simp
  show "''mhz'' \<in> set (split_ws (lower (drop 1 ''# MHz S MA R 50'')))" by code_simp
  show "''mhz'' \<in> set VALID_UNITS" by code_simp
qed

lemma split_aux_word:
  "list_all (\<lambda>c. \<not> isspace c) w \<Longrightarrow> split_aux cur (w @ xs) = split_aux (rev w @ cur) xs"
  by (induction w arbitrary: cur) simp_all

lemma split_ws_first_word:
  assumes "list_all (\<lambda>c. \<not> isspace c) w" and "w \<noteq> []"
  shows "split_ws (CHR '' '' # w @ CHR '' '' # xs) = w # split_ws xs"
proof -
  have sp: "isspace CHR '' ''" by (simp add: isspace_def)
  have "split_ws (CHR '' '' # w @ CHR '' '' # xs) = split_aux [] (w @ CHR '' '' # xs)"
    by (simp add: split_ws_def sp)
  also have "\<dots> = split_aux (rev w) (CHR '' '' # xs)"
    using split_aux_word [OF assms(1), of "[]"] by simp
  also have "\<dots> = w # split_ws xs"
    using assms(2) by (simp add: split_ws_def sp)
  finally show ?thesis .
qed

lemma unit_words:
  "u \<in> set VALID_UNITS \<Longrightarrow> lower (upper u) = u \<and> list_all (\<lambda>c. \<not> isspace c) u \<and> u \<noteq> []"
proof -
  have "list_all (\<lambda>u. lower (upper u) = u \<and> list_all (\<lambda>c. \<not> isspace c) u \<and> u \<noteq> []) VALID_UNITS"
    by code_simp
  then show "u \<in> set VALID_UNITS \<Longrightarrow> lower (upper u) = u \<and> list_all (\<lambda>c. \<not> isspace c) u \<and> u \<noteq> []"
    by (simp add: list_all_iff)
qed

text \<open>
  C2. The specification says: the string rendered by \<open>__str__\<close>, fed back into
  \<open>parse\<close>, is parsed and gives the same four settings. On the code it is never
  parsed: the rendered string starts with \<open>#\<close> and the unit, so the first token
  the loop meets is a unit keyword, and the assignment to the read-only property
  \<open>factor\<close> raises \<open>AttributeError\<close>. This holds for every object
  with a valid unit, whatever its other settings, and for every object the string is fed to,
  which is left as it was.
\<close>

theorem to_string_not_parsed:
  assumes "unit self \<in> set VALID_UNITS"
  shows "parse (Some (to_string self)) other = (other, Some AttributeError)"
proof -
  define rest where "rest = lower (upper (parameter self @ '' '' @ format self
            @ '' r '' @ str_of_int (resistance self)))"
  have ts: "to_string self = ''# '' @ upper (unit self) @ '' '' @
      upper (parameter self @ '' '' @ format self @ '' r '' @ str_of_int (resistance self))"
    unfolding to_string_def upper_def by (simp add: upper_chr_def)
  have sw: "startswith (to_string self) ''#''"
    by (simp add: ts startswith_def)
  have "lower (drop 1 (to_string self)) = CHR '' '' # unit self @ CHR '' '' # rest"
    using unit_words [OF assms]
    by (simp add: ts rest_def lower_def upper_def lower_chr_def)
  then have "split_ws (lower (drop 1 (to_string self))) = unit self # split_ws rest"
    using unit_words [OF assms] split_ws_first_word by simp
  with sw assms show ?thesis
    by (simp add: parse_def)
qed

theorem to_string_not_parsed_witness:
  "to_string Options_default = ''# GHZ S MA R 50''
   \<and> parse (Some ''# GHZ S MA R 50'') Options_default = (Options_default, Some AttributeError)"
proof -
  have u: "unit Options_default \<in> set VALID_UNITS" by code_simp
  have s: "to_string Options_default = ''# GHZ S MA R 50''" by code_simp
  show ?thesis
    using to_string_not_parsed [OF u, of Options_default] by (simp add: s)
qed

lemma r_is_only_r:
  "''r'' \<notin> set VALID_UNITS" "\<not> str_in ''r'' VALID_PARAMETERS" "''r'' \<notin> set VALID_FORMATS"
  by code_simp+

text \<open>
  C7. The specification says: a token whose category was already set earlier in the same
  call fails, the \<open>r\<close> token included. On the code the flag
  \<open>presist\<close> is tested but never set, so a second \<open>r\<close> with a number
  is consumed like the first and overwrites the resistance: the token list
  \<open>r a r b\<close> with two integer-like numbers is parsed without an exception, and
  the resistance ends as the second number.
\<close>

theorem parse_loop_repeated_r:
  assumes "int_of_str a = Some x" and "int_of_str b = Some y"
  shows "parse_loop line pfact pparam pformat False self [''r'', a, ''r'', b]
         = (self\<lparr>resistance := y\<rparr>, None)"
  using assms by (simp add: r_is_only_r)

theorem parse_loop_repeated_r_witness:
  "parse (Some ''# R 50 R 75'') Options_default = (Options_default\<lparr>resistance := 75\<rparr>, None)"
proof -
  have a: "int_of_str ''50'' = Some 50" and b: "int_of_str ''75'' = Some 75"
    by code_simp+
  have t: "split_ws (lower '' R 50 R 75'') = [''r'', ''50'', ''r'', ''75'']"
    by code_simp
  have s: "startswith ''# R 50 R 75'' ''#''"
    by code_simp
  show ?thesis
    using parse_loop_repeated_r [OF a b, of "''# R 50 R 75''" False False False Options_default]
    by (simp add: parse_def t s del: parse_loop.simps)
qed

text \<open>
  Further values of \<open>parse\<close>: an \<open>r\<close> with no token after it ends in \<open>StopIteration\<close>, an
  \<open>r\<close> before a token that is no integer ends in \<open>ValueError\<close>, and a token such as \<open>sy\<close>
  is taken as a parameter, since \<open>p in "syzgh"\<close> tests for a piece of that string.
\<close>

lemma parse_r_examples:
  "parse (Some ''# S R'') Options_default = (Options_default, Some StopIteration)"
  "parse (Some ''# S R 50.5'') Options_default = (Options_default, Some ValueError)"
  "parse (Some ''# SY'') Options_default = (Options_default\<lparr>parameter := ''sy''\<rparr>, None)"
  "parse (Some ''# XHZ S MA R 50'') Options_default
     = (Options_default, Some (TypeError ''Illegial option line: # XHZ S MA R 50''))"
  by code_simp+

section \<open>Properties of the data converter\<close>

text \<open>
  C4. The specification says: in format \<open>ma\<close> a pair (magnitude, angle in
  degrees) is converted to rectangular form and appended. On the code no pair is ever
  converted: as soon as the two tokens of a pair have been parsed, the call of
  \<open>cmath.polar\<close> with two arguments raises \<open>TypeError\<close>, and the
  object is left as it was.
\<close>

theorem append_line_data_ma_raises:
  assumes "format (opts self) = ''ma''"
    and "float_of_str F v1 = Some a" and "float_of_str F v2 = Some b"
  shows "append_line_data F fq (v1 # v2 # data) self = (self, Some (TypeError polar_msg))"
  using assms by (simp add: append_line_data_def)

theorem append_line_data_ma_raises_witness:
  "append_line_data sample_ops (Fin 1000000000) [''1'', ''0''] (Touchstone_init ''f'')
     = (Touchstone_init ''f'', Some (TypeError polar_msg))
   \<and> append_line_data sample_ops (Fin 1000000000) [''2'', ''90''] (Touchstone_init ''f'')
     = (Touchstone_init ''f'', Some (TypeError polar_msg))"
proof -
  have f: "format (opts (Touchstone_init ''f'' :: pyfloat Touchstone)) = ''ma''"
    by code_simp
  have v: "float_of_str sample_ops ''1'' = Some (Fin 1)" "float_of_str sample_ops ''0'' = Some (Fin 0)"
     "float_of_str sample_ops ''2'' = Some (Fin 2)" "float_of_str sample_ops ''90'' = Some (Fin 90)"
    by code_simp+
  show ?thesis
    using append_line_data_ma_raises [OF f v(1) v(2), of "Fin 1000000000" "[]"]
      append_line_data_ma_raises [OF f v(3) v(4), of "Fin 1000000000" "[]"]
    by simp
qed

text \<open>
  C3. The specification says: in format \<open>db\<close> a pair (decibels, angle in
  degrees) is converted through the linear magnitude \<open>10^(v1/20)\<close> and appended.
  On the code no pair is ever converted: once the two tokens have been parsed, the call ends
  in \<open>OverflowError\<close> when \<open>math.exp(v1 / 20)\<close> overflows, and in
  the \<open>TypeError\<close> of \<open>cmath.polar\<close> otherwise; the object is left
  as it was. (The magnitude the code computes before that is
  \<open>math.exp(v1 / 20)\<close>, a power of e.)
\<close>

theorem append_line_data_db_raises:
  assumes "format (opts self) = ''db''"
    and "float_of_str F v1 = Some a" and "float_of_str F v2 = Some b"
  shows "append_line_data F fq (v1 # v2 # data) self =
     (self, Some (case math_exp F (fdiv_int F a 20) of
                    None \<Rightarrow> OverflowError | Some m \<Rightarrow> TypeError polar_msg))"
  using assms by (simp add: append_line_data_def split: option.splits)

theorem append_line_data_db_raises_witness:
  "append_line_data sample_ops (Fin 1000000000) [''0'', ''0'']
      ((Touchstone_init ''f'')\<lparr>opts := Options_default\<lparr>format := ''db''\<rparr>\<rparr>)
     = ((Touchstone_init ''f'')\<lparr>opts := Options_default\<lparr>format := ''db''\<rparr>\<rparr>,
        Some (TypeError polar_msg))"
proof -
  have f: "format (opts ((Touchstone_init ''f'' :: pyfloat Touchstone)\<lparr>opts := Options_default\<lparr>format := ''db''\<rparr>\<rparr>)) = ''db''"
    by simp
  have v: "float_of_str sample_ops ''0'' = Some (Fin 0)"
    by code_simp
  have e: "math_exp sample_ops (fdiv_int sample_ops (Fin 0) 20) = Some (Fin (real_exp 0))"
    by (simp add: sample_ops_def)
  show ?thesis
    using append_line_data_db_raises [OF f v v, of "Fin 1000000000" "[]"]
    by (simp add: e)
qed

text \<open>
  In format \<open>ri\<close>, with four series, a ninth value token asks for a fifth series after
  four pairs have been appended.
\<close>

lemma append_line_data_ri_nine:
  assumes "format (opts self) = ''ri''"
    and "sdata self = [s0, s1, s2, s3]"
    and "float_of_str F v1 = Some x1" and "float_of_str F v2 = Some x2"
    and "float_of_str F v3 = Some x3" and "float_of_str F v4 = Some x4"
    and "float_of_str F v5 = Some x5" and "float_of_str F v6 = Some x6"
    and "float_of_str F v7 = Some x7" and "float_of_str F v8 = Some x8"
  shows "append_line_data F fq (v1 # v2 # v3 # v4 # v5 # v6 # v7 # v8 # v9 # data) self =
     (self\<lparr>sdata := [s0 @ [Datapoint fq x1 x2], s1 @ [Datapoint fq x3 x4],
                      s2 @ [Datapoint fq x5 x6], s3 @ [Datapoint fq x7 x8]]\<rparr>,
      Some StopIteration)"
  using assms by (simp add: append_line_data_def)

section \<open>Properties of the loader\<close>

lemma parse_comments_all:
  "list_all (\<lambda>l. startswith (strip l) ''!'') ls \<Longrightarrow>
   parse_comments ls self = (None, [], self\<lparr>comments := comments self @ map strip ls\<rparr>)"
  by (induction ls arbitrary: self) (simp_all add: Let_def)

text \<open>
  C9. When every line of the text starts with \<open>!\<close> after trimming (the empty text
  included), \<open>_parse_comments\<close> runs off the end of the file and returns \<open>None\<close>;
  \<open>Options.parse\<close> then fails with \<open>AttributeError\<close> (not with the \<open>TypeError\<close> it raises
  for a malformed options line), and the trimmed lines have been appended to the comments.
  Nothing else of the object changes.
\<close>

theorem loads_only_comments:
  assumes "list_all (\<lambda>l. startswith (strip l) ''!'') (readlines s)"
  shows "fst (parse_comments (readlines s) self) = None
    \<and> loads F s self =
      (self\<lparr>comments := comments self @ map strip (readlines s)\<rparr>, Some AttributeError)"
  using parse_comments_all [OF assms, of self]
  by (simp add: loads_def parse_def)

theorem loads_only_comments_witness:
  "loads sample_ops ''!a\<newline>  !b'' (Touchstone_init ''f'') =
     ((Touchstone_init ''f'')\<lparr>comments := [''!a'', ''!b'']\<rparr>, Some AttributeError)
   \<and> loads sample_ops '''' (Touchstone_init ''f'') = (Touchstone_init ''f'', Some AttributeError)"
proof -
  have h1: "list_all (\<lambda>l. startswith (strip l) ''!'') (readlines ''!a\<newline>  !b'')"
    by code_simp
  have h2: "list_all (\<lambda>l. startswith (strip l) ''!'') (readlines '''')"
    by code_simp
  have m1: "map strip (readlines ''!a\<newline>  !b'') = [''!a'', ''!b'']"
    by code_simp
  have m2: "map strip (readlines '''') = []"
    by code_simp
  show ?thesis
    using loads_only_comments [OF h1, where F = sample_ops and self = "Touchstone_init ''f''"]
      loads_only_comments [OF h2, where F = sample_ops and self = "Touchstone_init ''f''"]
    by (simp add: m1 m2 Touchstone_init_def)
qed

subsection \<open>What a call leaves of the earlier content\<close>

lemma map2_append_update:
  assumes "i < length sd" and "length base = length sd"
  shows "(map2 (@) base sd)[i := map2 (@) base sd ! i @ [p]] = map2 (@) base (sd[i := sd ! i @ [p]])"
  using assms by (simp add: list_eq_iff_nth_eq nth_list_update)

lemma append_loop_length:
  "length (fst (append_loop F fmt fq i data sd)) = length sd"
  by (induction F fmt fq i data sd rule: append_loop.induct)
     (auto split: option.splits list.splits)

lemma append_loop_behind:
  "length base = length sd \<Longrightarrow>
   append_loop F fmt fq i data (map2 (@) base sd) =
     (map2 (@) base (fst (append_loop F fmt fq i data sd)), snd (append_loop F fmt fq i data sd))"
proof (induction F fmt fq i data sd rule: append_loop.induct)
  case (1 F fmt fq i sd)
  then show ?case by simp
next
  case (2 F fmt fq i v vals sd)
  show ?case
  proof (cases "fmt = ''ri''")
    case True
    show ?thesis
    proof (cases "i < length sd")
      case False
      with True "2.prems" show ?thesis by simp
    next
      case lt: True
      show ?thesis
      proof (cases "float_of_str F v")
        case None
        with True lt "2.prems" show ?thesis by simp
      next
        case (Some a)
        show ?thesis
        proof (cases vals)
          case Nil
          with True lt Some "2.prems" show ?thesis by simp
        next
          case (Cons w vals')
          show ?thesis
          proof (cases "float_of_str F w")
            case None
            with True lt Some Cons "2.prems" show ?thesis by simp
          next
            case b: (Some b)
            have len: "length base = length (sd[i := sd ! i @ [Datapoint fq a b]])"
              using "2.prems" by simp
            have up: "(map2 (@) base sd)[i := map2 (@) base sd ! i @ [Datapoint fq a b]]
                = map2 (@) base (sd[i := sd ! i @ [Datapoint fq a b]])"
              using lt "2.prems" by (rule map2_append_update)
            from "2.IH"(1) [OF True _ Some Cons b len] lt
            have "append_loop F fmt fq (Suc i) vals' (map2 (@) base (sd[i := sd ! i @ [Datapoint fq a b]]))
               = (map2 (@) base (fst (append_loop F fmt fq (Suc i) vals' (sd[i := sd ! i @ [Datapoint fq a b]]))),
                  snd (append_loop F fmt fq (Suc i) vals' (sd[i := sd ! i @ [Datapoint fq a b]])))"
              by simp
            with True lt Some Cons b "2.prems" up show ?thesis
              by simp
          qed
        qed
      qed
    qed
  next
    case nri: False
    show ?thesis
    proof (cases "fmt = ''ma''")
      case True
      with nri show ?thesis by (simp split: option.splits list.splits)
    next
      case nma: False
      show ?thesis
      proof (cases "fmt = ''db''")
        case True
        with nri nma show ?thesis by (simp split: option.splits list.splits)
      next
        case False
        with nri nma "2.IH"(2) "2.prems" show ?thesis by simp
      qed
    qed
  qed
qed

lemma append_line_data_behind:
  assumes "length base = length (sdata self)"
  shows "append_line_data F fq data (behind base cs self) =
     (behind base cs (fst (append_line_data F fq data self)), snd (append_line_data F fq data self))"
  using append_loop_behind [OF assms, of F "format (opts self)" fq 0 data]
  by (simp add: append_line_data_def behind_def split: prod.splits)

lemma append_line_data_length:
  "append_line_data F fq data self = (self', e) \<Longrightarrow> length (sdata self') = length (sdata self)"
  using append_loop_length [of F "format (opts self)" fq 0 data "sdata self"]
  by (cases "append_loop F (format (opts self)) fq 0 data (sdata self)")
     (auto simp: append_line_data_def)

lemma loop_body_behind:
  assumes "length base = length (sdata self)"
  shows "loop_body F (pf, pl, behind base cs self) line =
     (case loop_body F (pf, pl, self) line of
        ((pf', pl', self'), e) \<Rightarrow> ((pf', pl', behind base cs self'), e))"
proof -
  have o: "opts (behind base cs self) = opts self"
    by (simp add: behind_def)
  show ?thesis
    unfolding loop_body_def
    by (simp add: o append_line_data_behind [OF assms] Let_def
        split: list.splits option.splits sum.splits prod.splits)
qed

lemma loop_body_length:
  "loop_body F (pf, pl, self) line = ((pf', pl', self'), e) \<Longrightarrow>
   length (sdata self') = length (sdata self)"
  unfolding loop_body_def
  by (auto simp: Let_def dest: append_line_data_length
      split: list.splits option.splits sum.splits prod.splits if_splits)

lemma data_loop_behind:
  "length base = length (sdata self) \<Longrightarrow>
   data_loop F (pf, pl, behind base cs self) ls =
     (case data_loop F (pf, pl, self) ls of
        ((pf', pl', self'), e) \<Rightarrow> ((pf', pl', behind base cs self'), e))"
proof (induction ls arbitrary: pf pl self)
  case Nil
  then show ?case by simp
next
  case (Cons line ls)
  obtain pf1 pl1 self1 e where b: "loop_body F (pf, pl, self) line = ((pf1, pl1, self1), e)"
    by (metis prod_cases3 surj_pair)
  have len: "length base = length (sdata self1)"
    using loop_body_length [OF b] Cons.prems by simp
  show ?case
    using Cons.IH [OF len, of pf1 pl1] loop_body_behind [OF Cons.prems, of F pf pl cs line] b
    by (simp split: option.splits prod.splits)
qed

lemma parse_comments_behind:
  "parse_comments ls (behind base cs self) =
     (case parse_comments ls self of (l, r, self') \<Rightarrow> (l, r, behind base cs self'))"
proof (induction ls arbitrary: self)
  case Nil
  then show ?case by simp
next
  case (Cons l ls)
  have "(behind base cs self)\<lparr>comments := comments (behind base cs self) @ [strip l]\<rparr>
      = behind base cs (self\<lparr>comments := comments self @ [strip l]\<rparr>)"
    by (simp add: behind_def)
  with Cons.IH [of "self\<lparr>comments := comments self @ [strip l]\<rparr>"] show ?case
    by (simp add: Let_def)
qed

lemma parse_comments_sdata:
  "parse_comments ls self = (l, r, self') \<Longrightarrow> sdata self' = sdata self \<and> opts self' = opts self"
  by (induction ls arbitrary: self) (auto simp: Let_def split: if_splits)

lemma loads_behind:
  assumes "length base = length (sdata self)"
  shows "loads F s (behind base cs self)
       = (behind base cs (fst (loads F s self)), snd (loads F s self))"
proof -
  obtain l r self1 where pc: "parse_comments (readlines s) self = (l, r, self1)"
    by (metis prod_cases3)
  have len: "length base = length (sdata (self1\<lparr>opts := ops\<rparr>))" for ops
    using parse_comments_sdata [OF pc] assms by simp
  have o: "opts (behind base cs self1) = opts self1"
    by (simp add: behind_def)
  have u: "(behind base cs self1)\<lparr>opts := ops\<rparr> = behind base cs (self1\<lparr>opts := ops\<rparr>)" for ops
    by (simp add: behind_def)
  show ?thesis
    unfolding loads_def
    using data_loop_behind [OF len, of F "fzero F" 0 cs]
    by (simp add: parse_comments_behind pc o u split: prod.splits option.splits)
qed

lemma map2_append_empty: "map2 (@) xs (replicate (length xs) []) = xs"
  by (induction xs) simp_all

lemma behind_emptied: "behind (sdata self) (comments self) (emptied self) = self"
  by (simp add: behind_def emptied_def map2_append_empty)

text \<open>
  \<open>loads\<close> never clears or rewrites what the instance already holds: for every text and
  every instance, the call ends as it ends on the emptied instance (same options, empty
  series and comments), with the series and comments it produces there put behind the
  ones the instance held. This holds whether or not the call raises, and says nothing
  about which points a call produces.
\<close>

lemma loads_appends:
  "loads F s self =
     (behind (sdata self) (comments self) (fst (loads F s (emptied self))),
      snd (loads F s (emptied self)))
   \<and> sdata (fst (loads F s2 (fst (loads F s1 self)))) =
       map2 (@) (map2 (@) (sdata self) (sdata (fst (loads F s1 (emptied self)))))
         (sdata (fst (loads F s2 (emptied (fst (loads F s1 self))))))
   \<and> comments (fst (loads F s2 (fst (loads F s1 self)))) =
       (comments self @ comments (fst (loads F s1 (emptied self))))
         @ comments (fst (loads F s2 (emptied (fst (loads F s1 self)))))"
proof -
  have one: "loads F t x =
     (behind (sdata x) (comments x) (fst (loads F t (emptied x))), snd (loads F t (emptied x)))"
    for t and x :: "'a Touchstone"
  proof -
    have "length (sdata x) = length (sdata (emptied x))"
      by (simp add: emptied_def)
    from loads_behind [OF this, of F t "comments x"] show ?thesis
      by (simp add: behind_emptied)
  qed
  have sd: "sdata (fst (loads F t x)) = map2 (@) (sdata x) (sdata (fst (loads F t (emptied x))))"
    for t and x :: "'a Touchstone"
  proof -
    have "sdata (fst (loads F t x)) =
        sdata (behind (sdata x) (comments x) (fst (loads F t (emptied x))))"
      using one [of t x] by (metis fst_conv)
    then show ?thesis by (simp add: behind_def)
  qed
  have cm: "comments (fst (loads F t x)) = comments x @ comments (fst (loads F t (emptied x)))"
    for t and x :: "'a Touchstone"
  proof -
    have "comments (fst (loads F t x)) =
        comments (behind (sdata x) (comments x) (fst (loads F t (emptied x))))"
      using one [of t x] by (metis fst_conv)
    then show ?thesis by (simp add: behind_def)
  qed
  have a: "sdata (fst (loads F s2 (fst (loads F s1 self)))) =
       map2 (@) (sdata (fst (loads F s1 self)))
         (sdata (fst (loads F s2 (emptied (fst (loads F s1 self))))))"
    by (rule sd)
  have b: "sdata (fst (loads F s1 self)) =
       map2 (@) (sdata self) (sdata (fst (loads F s1 (emptied self))))"
    by (rule sd)
  have c: "comments (fst (loads F s2 (fst (loads F s1 self)))) =
       comments (fst (loads F s1 self))
         @ comments (fst (loads F s2 (emptied (fst (loads F s1 self)))))"
    by (rule cm)
  have d: "comments (fst (loads F s1 self)) =
       comments self @ comments (fst (loads F s1 (emptied self)))"
    by (rule cm)
  from one [of s self] a [unfolded b] c [unfolded d] show ?thesis
    by (intro conjI)
qed

text \<open>
  Two bodies in format \<open>ri\<close> whose options lines name no unit are loaded one after the
  other: the points of the second body stand behind those of the first.
\<close>

lemma loads_twice_example:
  "fst (loads sample_ops ''# RI\<newline>1 3 4\<newline>''
     (fst (loads sample_ops ''! first\<newline># S RI R 50\<newline>1 1 2\<newline>2 5 6\<newline>'' (Touchstone_init ''f''))))
   = (Touchstone_init ''f'')\<lparr>opts := Options_default\<lparr>format := ''ri''\<rparr>,
        comments := [''! first''],
        sdata := [[Datapoint (Fin 1000000000) (Fin 1) (Fin 2),
                   Datapoint (Fin 2000000000) (Fin 5) (Fin 6),
                   Datapoint (Fin 1000000000) (Fin 3) (Fin 4)], [], [], []]\<rparr>"
  by code_simp

text \<open>
  C8. The specification says: two calls of \<open>loads\<close> on one instance with two valid bodies
  leave the points of the first body in place and append the points of the second body
  behind them. On the code a body whose options line names a frequency unit, as the
  rendered form \<open># GHZ S RI R 50\<close> does, appends nothing: whenever a token of the options
  line is a unit keyword, \<open>loads\<close> ends in an exception before it reads a data line, and
  the series are what they were before the call. So after two such bodies the series are
  still empty.
\<close>

theorem loads_unit_keyword_appends_nothing:
  assumes "fst (parse_comments (readlines s) self) = Some ol"
    and "startswith ol ''#''"
    and "p \<in> set (split_ws (lower (drop 1 ol)))"
    and "p \<in> set VALID_UNITS"
  shows "snd (loads F s self) \<noteq> None \<and> sdata (fst (loads F s self)) = sdata self"
proof -
  obtain ls selfc where pc: "parse_comments (readlines s) self = (Some ol, ls, selfc)"
    using assms(1) by (cases "parse_comments (readlines s) self") simp
  have sd: "sdata selfc = sdata self"
    using parse_comments_sdata [OF pc] by simp
  obtain ops e where pr: "parse (Some ol) (opts selfc) = (ops, e)"
    by (cases "parse (Some ol) (opts selfc)") simp
  have "snd (parse (Some ol) (opts selfc)) \<noteq> None"
    using assms(2-4)
      parse_loop_unit_token [of p "split_ws (lower (drop 1 ol))" False ol False False False "opts selfc"]
    by (simp add: parse_def)
  with pr obtain x where e: "e = Some x"
    by auto
  from pc pr e sd show ?thesis
    by (simp add: loads_def)
qed

theorem loads_unit_keyword_appends_nothing_witness:
  "snd (loads sample_ops ''# GHZ S RI R 50\<newline>1 1 2\<newline>'' (Touchstone_init ''f'')) \<noteq> None
   \<and> snd (loads sample_ops ''# GHZ S RI R 50\<newline>2 3 4\<newline>''
          (fst (loads sample_ops ''# GHZ S RI R 50\<newline>1 1 2\<newline>'' (Touchstone_init ''f'')))) \<noteq> None
   \<and> sdata (fst (loads sample_ops ''# GHZ S RI R 50\<newline>2 3 4\<newline>''
          (fst (loads sample_ops ''# GHZ S RI R 50\<newline>1 1 2\<newline>'' (Touchstone_init ''f'')))))
       = [[], [], [], []]"
proof -
  have h1: "fst (parse_comments (readlines ''# GHZ S RI R 50\<newline>1 1 2\<newline>'')
        (Touchstone_init ''f'' :: pyfloat Touchstone)) = Some ''# GHZ S RI R 50''"
    by code_simp
  have h2: "fst (parse_comments (readlines ''# GHZ S RI R 50\<newline>2 3 4\<newline>'')
        (fst (loads sample_ops ''# GHZ S RI R 50\<newline>1 1 2\<newline>'' (Touchstone_init ''f''))))
      = Some ''# GHZ S RI R 50''"
    by code_simp
  have sw: "startswith ''# GHZ S RI R 50'' ''#''"
    by code_simp
  have mem: "''ghz'' \<in> set (split_ws (lower (drop 1 ''# GHZ S RI R 50'')))"
    by code_simp
  have u: "''ghz'' \<in> set VALID_UNITS"
    by code_simp
  have t0: "sdata (Touchstone_init ''f'' :: pyfloat Touchstone) = [[], [], [], []]"
    by (simp add: Touchstone_init_def)
  note a = loads_unit_keyword_appends_nothing [OF h1 sw mem u, of sample_ops]
  note b = loads_unit_keyword_appends_nothing [OF h2 sw mem u, of sample_ops]
  from a b t0 show ?thesis
    by (intro conjI) (erule conjunct1, erule conjunct1, metis)
qed

text \<open>
  The two calls on whole files: two bodies with a unit keyword, and two bodies in format
  \<open>ma\<close>, where the first data line ends the call.
\<close>

lemma loads_twice_valid_examples:
  "loads sample_ops ''# GHZ S RI R 50\<newline>2 3 4\<newline>''
      (fst (loads sample_ops ''# GHZ S RI R 50\<newline>1 1 2\<newline>'' (Touchstone_init ''f'')))
     = (Touchstone_init ''f'', Some AttributeError)"
  "loads sample_ops ''# S MA R 50\<newline>2 1 0\<newline>''
      (fst (loads sample_ops ''# S MA R 50\<newline>1 1 0\<newline>'' (Touchstone_init ''f'')))
     = (Touchstone_init ''f'', Some (TypeError polar_msg))"
  by code_simp+

subsection \<open>The checks on the data lines\<close>

lemma append_line_data_opts:
  "append_line_data F fq data self = (self', e) \<Longrightarrow> opts self' = opts self"
  by (cases "append_loop F (format (opts self)) fq 0 data (sdata self)")
     (auto simp: append_line_data_def)

lemma loop_body_blank: "\<not> nonblank line \<Longrightarrow> loop_body F st line = (st, None)"
  by (cases st) (simp add: loop_body_def nonblank_def)

lemma loop_body_ok:
  assumes "loop_body F (pf, pl, self) line = ((pf', pl', self'), None)" and "nonblank line"
  shows "line_freq F (opts self) line = Some pf' \<and> \<not> fle F pf' pf \<and> opts self' = opts self
       \<and> (if pl = 0 then pl' = value_count line \<and> even (value_count line)
           else pl' = pl \<and> value_count line = pl)"
  using assms unfolding loop_body_def line_freq_def value_count_def line_tokens_def nonblank_def
  by (auto simp: Let_def dest: append_line_data_opts
      split: list.splits option.splits sum.splits prod.splits if_splits)

lemma loop_body_not_ascending:
  assumes "nonblank line" and "line_freq F (opts self) line = Some f" and "fle F f pf"
  shows "loop_body F (pf, pl, self) line =
     ((pf, pl, self), Some (TypeError (''Frequeny not ascending: '' @ line)))"
  using assms unfolding loop_body_def line_freq_def line_tokens_def nonblank_def
  by (auto simp: Let_def split: list.splits option.splits sum.splits)



lemma loop_body_accept:
  assumes "nonblank line" and "line_freq F (opts self) line = Some f" and "\<not> fle F f pf"
    and "if pl = 0 then even (value_count line) else value_count line = pl"
  shows "loop_body F (pf, pl, self) line =
     (case append_line_data F f (drop 1 (line_tokens line)) self of
        (self', e) \<Rightarrow> ((f, value_count line, self'), e))"
  using assms unfolding loop_body_def line_freq_def value_count_def line_tokens_def nonblank_def
  by (auto simp: Let_def split: list.splits option.splits sum.splits prod.splits if_splits)

lemma data_loop_append:
  "data_loop F st (xs @ ys) =
     (case data_loop F st xs of
        (st', Some e) \<Rightarrow> (st', Some e)
      | (st', None) \<Rightarrow> data_loop F st' ys)"
  by (induction xs arbitrary: st) (auto split: prod.splits option.splits)

lemma data_loop_freqs:
  "data_loop F (pf0, pl0, self0) pre = ((pf, pl, self1), None) \<Longrightarrow>
   length (List.map_filter (line_freq F (opts self0)) (filter nonblank pre))
     = length (filter nonblank pre)
   \<and> successively (\<lambda>a b. \<not> fle F b a)
        (pf0 # List.map_filter (line_freq F (opts self0)) (filter nonblank pre))
   \<and> pf = last (pf0 # List.map_filter (line_freq F (opts self0)) (filter nonblank pre))
   \<and> opts self1 = opts self0"
proof (induction pre arbitrary: pf0 pl0 self0)
  case Nil
  then show ?case by simp
next
  case (Cons line pre)
  obtain pf' pl' self' e where b: "loop_body F (pf0, pl0, self0) line = ((pf', pl', self'), e)"
    by (metis prod_cases3 surj_pair)
  with Cons.prems have e: "e = None"
    and rest: "data_loop F (pf', pl', self') pre = ((pf, pl, self1), None)"
    by (auto split: option.splits)
  show ?case
  proof (cases "nonblank line")
    case False
    with b loop_body_blank [of line F "(pf0, pl0, self0)"]
    have "pf' = pf0" "pl' = pl0" "self' = self0" by simp_all
    with rest have rest0: "data_loop F (pf0, pl0, self0) pre = ((pf, pl, self1), None)"
      by simp
    from Cons.IH [OF rest0] False show ?thesis by simp
  next
    case True
    from loop_body_ok [OF b [unfolded e] True]
    have lf: "line_freq F (opts self0) line = Some pf'" and asc: "\<not> fle F pf' pf0"
      and o: "opts self' = opts self0" by simp_all
    from Cons.IH [OF rest] o True lf asc show ?thesis
      by (simp add: successively_Cons)
  qed
qed


lemma loads_data_phase:
  assumes "parse_comments (readlines s) self0 = (Some ol, file, selfc)"
    and "parse (Some ol) (opts selfc) = (ops, None)"
  shows "loads F s self0 =
     (case data_loop F (fzero F, 0, selfc\<lparr>opts := ops\<rparr>) file of
        ((pf, pl, self2), e) \<Rightarrow> (self2, e))"
  using assms by (simp add: loads_def)

text \<open>
  C5. The specification says: every accepted data line has a normalized frequency strictly
  greater than the one accepted before it (0.0 at the start), and every line violating this
  fails. The code rejects a line when \<open>freq <= prev_freq\<close>, which is false for a
  NaN: the line \<open>nan 1 2\<close> is accepted and its point appended, although its
  frequency is not greater than 0.0.
\<close>

theorem nan_frequency_counterexample:
  "loads sample_ops ''# RI\<newline>nan 1 2\<newline>'' (Touchstone_init ''f'') =
     ((Touchstone_init ''f'')\<lparr>opts := Options_default\<lparr>format := ''ri''\<rparr>,
         sdata := [[Datapoint NaN (Fin 1) (Fin 2)], [], [], []]\<rparr>, None)
   \<and> line_freq sample_ops (Options_default\<lparr>format := ''ri''\<rparr>) ''nan 1 2\<newline>'' = Some NaN
   \<and> \<not> sample_flt (fzero sample_ops) NaN"
  by code_simp

text \<open>
  C5, amended. Take one call of \<open>loads\<close> whose options line is parsed, and data lines
  \<open>pre\<close> that the loop has gone through without an exception. Every line of \<open>pre\<close> that is
  not blank has a normalized frequency, and each of these is not less than or equal to the
  one before it, starting from 0.0 (it is strictly greater unless one of the two is a NaN);
  \<open>prev_freq\<close> is the last of them. If the next line of the file has a normalized
  frequency that is less than or equal to \<open>prev_freq\<close> (an equal one, and 0 on the first
  line, included), the call fails with the \<open>TypeError\<close> whose message ends with that line,
  and the instance is as the lines before left it: no point of that line or of a later
  line is appended.
\<close>

theorem loads_ascending:
  assumes "parse_comments (readlines s) self0 = (Some ol, file, selfc)"
    and "parse (Some ol) (opts selfc) = (ops, None)"
    and "data_loop F (fzero F, 0, selfc\<lparr>opts := ops\<rparr>) pre = ((pf, pl, self1), None)"
  shows "length (List.map_filter (line_freq F ops) (filter nonblank pre))
           = length (filter nonblank pre)
     \<and> successively (\<lambda>a b. \<not> fle F b a)
          (fzero F # List.map_filter (line_freq F ops) (filter nonblank pre))
     \<and> pf = last (fzero F # List.map_filter (line_freq F ops) (filter nonblank pre))
     \<and> (file = pre @ line # rest \<and> nonblank line \<and> line_freq F ops line = Some f \<and> fle F f pf
          \<longrightarrow> loads F s self0 = (self1, Some (TypeError (''Frequeny not ascending: '' @ line))))"
proof -
  from data_loop_freqs [OF assms(3)]
  have inv: "length (List.map_filter (line_freq F ops) (filter nonblank pre))
           = length (filter nonblank pre)
     \<and> successively (\<lambda>a b. \<not> fle F b a)
          (fzero F # List.map_filter (line_freq F ops) (filter nonblank pre))
     \<and> pf = last (fzero F # List.map_filter (line_freq F ops) (filter nonblank pre))"
    and o: "opts self1 = ops"
    by simp_all
  have "loads F s self0 = (self1, Some (TypeError (''Frequeny not ascending: '' @ line)))"
    if "file = pre @ line # rest" and "nonblank line" and "line_freq F ops line = Some f"
      and "fle F f pf"
  proof -
    from that o have "loop_body F (pf, pl, self1) line =
        ((pf, pl, self1), Some (TypeError (''Frequeny not ascending: '' @ line)))"
      by (simp add: loop_body_not_ascending)
    with assms(3) that(1)
    have "data_loop F (fzero F, 0, selfc\<lparr>opts := ops\<rparr>) file =
        ((pf, pl, self1), Some (TypeError (''Frequeny not ascending: '' @ line)))"
      by (simp add: data_loop_append)
    with loads_data_phase [OF assms(1,2), of F] show ?thesis by simp
  qed
  with inv show ?thesis by blast
qed

theorem loads_ascending_witness:
  "loads sample_ops ''# RI\<newline>1 1 2\<newline>1 3 4\<newline>2 5 6\<newline>'' (Touchstone_init ''f'') =
     ((Touchstone_init ''f'')\<lparr>opts := Options_default\<lparr>format := ''ri''\<rparr>,
         sdata := [[Datapoint (Fin 1000000000) (Fin 1) (Fin 2)], [], [], []]\<rparr>,
      Some (TypeError ''Frequeny not ascending: 1 3 4\<newline>''))"
proof -
  have h1: "parse_comments (readlines ''# RI\<newline>1 1 2\<newline>1 3 4\<newline>2 5 6\<newline>'') (Touchstone_init ''f'' :: pyfloat Touchstone)
      = (Some ''# RI'', [''1 1 2\<newline>''] @ ''1 3 4\<newline>'' # [''2 5 6\<newline>''], Touchstone_init ''f'')"
    by code_simp
  have h2: "parse (Some ''# RI'') (opts (Touchstone_init ''f'' :: pyfloat Touchstone))
      = (Options_default\<lparr>format := ''ri''\<rparr>, None)"
    by code_simp
  have h3: "data_loop sample_ops
       (fzero sample_ops, 0, (Touchstone_init ''f'')\<lparr>opts := Options_default\<lparr>format := ''ri''\<rparr>\<rparr>)
       [''1 1 2\<newline>'']
      = ((Fin 1000000000, 2,
          (Touchstone_init ''f'')\<lparr>opts := Options_default\<lparr>format := ''ri''\<rparr>,
             sdata := [[Datapoint (Fin 1000000000) (Fin 1) (Fin 2)], [], [], []]\<rparr>), None)"
    by code_simp
  have l: "nonblank ''1 3 4\<newline>''
    \<and> line_freq sample_ops (Options_default\<lparr>format := ''ri''\<rparr>) ''1 3 4\<newline>'' = Some (Fin 1000000000)
    \<and> fle sample_ops (Fin 1000000000) (Fin 1000000000)"
    by code_simp
  note step = loads_ascending [OF h1 h2 h3, THEN conjunct2, THEN conjunct2, THEN conjunct2, THEN mp]
  have "loads sample_ops ''# RI\<newline>1 1 2\<newline>1 3 4\<newline>2 5 6\<newline>'' (Touchstone_init ''f'') =
     ((Touchstone_init ''f'')\<lparr>opts := Options_default\<lparr>format := ''ri''\<rparr>,
         sdata := [[Datapoint (Fin 1000000000) (Fin 1) (Fin 2)], [], [], []]\<rparr>,
      Some (TypeError (''Frequeny not ascending: '' @ ''1 3 4\<newline>'')))"
    by (rule step) (rule conjI [OF refl l])
  then show ?thesis by simp
qed




text \<open>
  C10. The specification says: every data line with more than 8 value tokens, of even count,
  fails with an exhausted iterator at the fifth pair, after its first four pairs have been
  appended. This fails in format \<open>ma\<close>, the default, where the line ends in the
  \<open>TypeError\<close> of its first pair with nothing appended, and in format
  \<open>ri\<close> when a value token is no float.
\<close>

theorem ten_values_counterexample:
  "value_count ''1 1 2 3 4 5 6 7 8 9 10\<newline>'' = 10
   \<and> loads sample_ops ''# S MA R 50\<newline>1 1 2 3 4 5 6 7 8 9 10\<newline>'' (Touchstone_init ''f'')
       = (Touchstone_init ''f'', Some (TypeError polar_msg))
   \<and> loads sample_ops ''# S RI R 50\<newline>1 1 x 3 4 5 6 7 8 9 10\<newline>'' (Touchstone_init ''f'')
       = ((Touchstone_init ''f'')\<lparr>opts := Options_default\<lparr>format := ''ri''\<rparr>\<rparr>, Some ValueError)"
  by code_simp

text \<open>
  C10, amended. In format \<open>ri\<close>, with the four series the object is created with, take
  a data line that passes the ascending check, has at least nine value tokens of which the
  first eight parse as floats, and passes the check of its number of value tokens (an even
  number while no count is fixed, the fixed count otherwise). The line fails with
  \<open>StopIteration\<close> when its fifth pair asks for a fifth series; by then its first four
  pairs have been appended, one to each series, with the frequency of the line.
\<close>

theorem loop_body_fifth_pair:
  assumes "nonblank line"
    and "line_tokens line = tok # v1 # v2 # v3 # v4 # v5 # v6 # v7 # v8 # v9 # data"
    and "line_freq F (opts self) line = Some f" and "\<not> fle F f pf"
    and "if pl = 0 then even (value_count line) else value_count line = pl"
    and "format (opts self) = ''ri''"
    and "sdata self = [s0, s1, s2, s3]"
    and "float_of_str F v1 = Some x1" and "float_of_str F v2 = Some x2"
    and "float_of_str F v3 = Some x3" and "float_of_str F v4 = Some x4"
    and "float_of_str F v5 = Some x5" and "float_of_str F v6 = Some x6"
    and "float_of_str F v7 = Some x7" and "float_of_str F v8 = Some x8"
  shows "loop_body F (pf, pl, self) line =
     ((f, value_count line,
       self\<lparr>sdata := [s0 @ [Datapoint f x1 x2], s1 @ [Datapoint f x3 x4],
                        s2 @ [Datapoint f x5 x6], s3 @ [Datapoint f x7 x8]]\<rparr>),
      Some StopIteration)"
proof -
  have "loop_body F (pf, pl, self) line =
     (case append_line_data F f (drop 1 (line_tokens line)) self of
        (self', e) \<Rightarrow> ((f, value_count line, self'), e))"
    using assms(1,3,4,5) by (rule loop_body_accept)
  moreover have "append_line_data F f (drop 1 (line_tokens line)) self =
     (self\<lparr>sdata := [s0 @ [Datapoint f x1 x2], s1 @ [Datapoint f x3 x4],
                      s2 @ [Datapoint f x5 x6], s3 @ [Datapoint f x7 x8]]\<rparr>,
      Some StopIteration)"
    using append_line_data_ri_nine [OF assms(6-15), of f v9 data] assms(2) by simp
  ultimately show ?thesis by simp
qed

theorem loop_body_fifth_pair_witness:
  "loop_body sample_ops
      (fzero sample_ops, 0, (Touchstone_init ''f'')\<lparr>opts := Options_default\<lparr>format := ''ri''\<rparr>\<rparr>)
      ''1 10 20 30 40 50 60 70 80 90 100\<newline>''
   = ((Fin 1000000000, 10,
       (Touchstone_init ''f'')\<lparr>opts := Options_default\<lparr>format := ''ri''\<rparr>,
          sdata := [[Datapoint (Fin 1000000000) (Fin 10) (Fin 20)],
                    [Datapoint (Fin 1000000000) (Fin 30) (Fin 40)],
                    [Datapoint (Fin 1000000000) (Fin 50) (Fin 60)],
                    [Datapoint (Fin 1000000000) (Fin 70) (Fin 80)]]\<rparr>),
      Some StopIteration)"
proof -
  have n: "nonblank ''1 10 20 30 40 50 60 70 80 90 100\<newline>''"
    by code_simp
  have t: "line_tokens ''1 10 20 30 40 50 60 70 80 90 100\<newline>''
      = ''1'' # ''10'' # ''20'' # ''30'' # ''40'' # ''50'' # ''60'' # ''70'' # ''80'' # ''90'' # [''100'']"
    by code_simp
  have q: "line_freq sample_ops
       (opts ((Touchstone_init ''f'' :: pyfloat Touchstone)\<lparr>opts := Options_default\<lparr>format := ''ri''\<rparr>\<rparr>))
       ''1 10 20 30 40 50 60 70 80 90 100\<newline>'' = Some (Fin 1000000000)"
    by code_simp
  have a: "\<not> fle sample_ops (Fin 1000000000) (fzero sample_ops)"
    by code_simp
  have c: "if (0::nat) = 0 then even (value_count ''1 10 20 30 40 50 60 70 80 90 100\<newline>'')
           else value_count ''1 10 20 30 40 50 60 70 80 90 100\<newline>'' = 0"
    by code_simp
  have f: "format (opts ((Touchstone_init ''f'' :: pyfloat Touchstone)\<lparr>opts := Options_default\<lparr>format := ''ri''\<rparr>\<rparr>)) = ''ri''"
    by code_simp
  have s: "sdata ((Touchstone_init ''f'' :: pyfloat Touchstone)\<lparr>opts := Options_default\<lparr>format := ''ri''\<rparr>\<rparr>)
      = [[], [], [], []]"
    by code_simp
  have v: "float_of_str sample_ops ''10'' = Some (Fin 10)" "float_of_str sample_ops ''20'' = Some (Fin 20)"
     "float_of_str sample_ops ''30'' = Some (Fin 30)" "float_of_str sample_ops ''40'' = Some (Fin 40)"
     "float_of_str sample_ops ''50'' = Some (Fin 50)" "float_of_str sample_ops ''60'' = Some (Fin 60)"
     "float_of_str sample_ops ''70'' = Some (Fin 70)" "float_of_str sample_ops ''80'' = Some (Fin 80)"
    by code_simp+
  have raw: "loop_body sample_ops
      (fzero sample_ops, 0, (Touchstone_init ''f'')\<lparr>opts := Options_default\<lparr>format := ''ri''\<rparr>\<rparr>)
      ''1 10 20 30 40 50 60 70 80 90 100\<newline>''
   = ((Fin 1000000000, value_count ''1 10 20 30 40 50 60 70 80 90 100\<newline>'',
       (Touchstone_init ''f'')\<lparr>opts := Options_default\<lparr>format := ''ri''\<rparr>\<rparr>
         \<lparr>sdata := [[] @ [Datapoint (Fin 1000000000) (Fin 10) (Fin 20)],
                   [] @ [Datapoint (Fin 1000000000) (Fin 30) (Fin 40)],
                   [] @ [Datapoint (Fin 1000000000) (Fin 50) (Fin 60)],
                   [] @ [Datapoint (Fin 1000000000) (Fin 70) (Fin 80)]]\<rparr>),
      Some StopIteration)"
    by (rule loop_body_fifth_pair [OF n t q a c f s v])
  have n10: "value_count ''1 10 20 30 40 50 60 70 80 90 100\<newline>'' = 10"
    by code_simp
  from raw show ?thesis by (simp add: n10)
qed

text \<open>Further values of \<open>loads\<close> on whole files.\<close>

lemma loads_examples:
  "loads sample_ops ''# MHz S RI R 50\<newline>100 1 0\<newline>'' (Touchstone_init ''f'')
     = (Touchstone_init ''f'', Some AttributeError)"
  "loads sample_ops ''# S MA R 50\<newline>1 1 0\<newline>'' (Touchstone_init ''f'')
     = (Touchstone_init ''f'', Some (TypeError polar_msg))"
  "loads sample_ops ''# S DB R 50\<newline>1 0 0\<newline>'' (Touchstone_init ''f'')
     = ((Touchstone_init ''f'')\<lparr>opts := Options_default\<lparr>format := ''db''\<rparr>\<rparr>,
        Some (TypeError polar_msg))"
  "loads sample_ops ''# S RI R 50\<newline>1 3.0 -4.0\<newline>'' (Touchstone_init ''f'')
     = ((Touchstone_init ''f'')\<lparr>opts := Options_default\<lparr>format := ''ri''\<rparr>,
         sdata := [[Datapoint (Fin 1000000000) (Fin 3) (Fin (- 4))], [], [], []]\<rparr>, None)"
  "loads sample_ops ''# S RI R 50\<newline>0 1 2\<newline>'' (Touchstone_init ''f'')
     = ((Touchstone_init ''f'')\<lparr>opts := Options_default\<lparr>format := ''ri''\<rparr>\<rparr>,
        Some (TypeError ''Frequeny not ascending: 0 1 2\<newline>''))"
  "loads sample_ops ''# S RI R 50\<newline>1 10 20 30 40 50 60 70 80 90 100\<newline>'' (Touchstone_init ''f'')
     = ((Touchstone_init ''f'')\<lparr>opts := Options_default\<lparr>format := ''ri''\<rparr>,
         sdata := [[Datapoint (Fin 1000000000) (Fin 10) (Fin 20)],
                   [Datapoint (Fin 1000000000) (Fin 30) (Fin 40)],
                   [Datapoint (Fin 1000000000) (Fin 50) (Fin 60)],
                   [Datapoint (Fin 1000000000) (Fin 70) (Fin 80)]]\<rparr>,
        Some StopIteration)"
  by code_simp+

section \<open>The constructor\<close>

text \<open>
  \<open>Options()\<close> with its default arguments passes the assertions of \<open>__init__\<close> and is
  the object \<open>Options_default\<close>; every object that \<open>__init__\<close> returns has a valid unit.
\<close>

lemma Options_init_default: "Options_init ''GHZ'' ''S'' ''ma'' 50 = Inr Options_default"
  by code_simp

lemma Options_init_unit: "Options_init u p t r = Inr self \<Longrightarrow> unit self \<in> set VALID_UNITS"
  by (auto simp: Options_init_def split: if_splits)

end
